theory Spec2Isabelle
  imports Main "HOL-Library.Word"
begin

unbundle bit_operations_syntax

section \<open>Data model\<close>

text \<open>
  A vector value of \<open>enoki/array_base.h\<close> is a fixed-length sequence of lanes. It is
  modelled as the list of its lanes: \<open>Derived::Size\<close> is the length of the list and
  \<open>derived().coeff(i)\<close> is its \<open>i\<close>-th element. The two exceptions the file throws
  (\<open>std::out_of_range\<close>, \<open>std::length_error\<close>) are values of \<open>error\<close>, each with
  the text of its \<open>what()\<close>; reading a lane that does not exist is undefined behaviour in
  C++ and is a value of its own, so that no out-of-range read hides in the model.
  A member function whose C++ name ends in an underscore (\<open>resize_\<close>, \<open>asin_\<close>)
  keeps its name with the suffix \<open>impl\<close> (\<open>resize_impl\<close>, \<open>asin_impl\<close>), since a
  name cannot end in an underscore here.
\<close>

datatype error =
    Out_of_range string
  | Length_error string
  | Undefined_behaviour

text \<open>\<open>constexpr size_t size() const { return Derived::Size; }\<close>\<close>

definition size_impl :: "'a list \<Rightarrow> nat" where
  "size_impl v = length v"

text \<open>
  \<open>derived().coeff(i)\<close> of a concrete array type (\<open>((Value *) &m)[i]\<close> in
  \<open>ENOKI_NATIVE_ARRAY\<close>): no check of its own.
\<close>

definition coeff :: "'a list \<Rightarrow> nat \<Rightarrow> error + 'a" where
  "coeff v i = (if i < length v then Inr (v ! i) else Inl Undefined_behaviour)"

definition set_coeff :: "'a list \<Rightarrow> nat \<Rightarrow> 'a \<Rightarrow> error + 'a list" where
  "set_coeff v i x = (if i < length v then Inr (v[i := x]) else Inl Undefined_behaviour)"

section \<open>Recursive size decomposition\<close>

text \<open>
  Modelled from the spec: \<open>detail::lpow2\<close> is declared in another header of the
  library, which is not among the sources; \<open>array_base.h\<close> only calls it. The
  specification describes its result as the largest power of two not exceeding its
  argument. The recursion below computes that number by halving.
\<close>

fun lpow2 :: "nat \<Rightarrow> nat" where
  "lpow2 n = (if n < 2 then n else 2 * lpow2 (n div 2))"

declare lpow2.simps [simp del]

text \<open>
  \<open>static constexpr size_t Size1 = detail::lpow2(Size_);\<close> and
  \<open>static constexpr size_t Size2 = Size_ - Size1;\<close>
\<close>

definition Size1 :: "nat \<Rightarrow> nat" where
  "Size1 N = lpow2 N"

definition Size2 :: "nat \<Rightarrow> nat" where
  "Size2 N = N - Size1 N"

section \<open>Element access\<close>

text \<open>\<open>std::to_string\<close> of a \<open>size_t\<close>: its decimal digits.\<close>

definition digit_char :: "nat \<Rightarrow> char" where
  "digit_char d = ''0123456789'' ! d"

fun to_string :: "nat \<Rightarrow> string" where
  "to_string n =
     (if n < 10 then [digit_char n] else to_string (n div 10) @ [digit_char (n mod 10)])"

declare to_string.simps [simp del]

definition out_of_range_message :: "nat \<Rightarrow> nat \<Rightarrow> string" where
  "out_of_range_message i n =
     ''ArrayBase: out of range access (tried to access index '' @ to_string i @
     '' in an array of size '' @ to_string n @ '')''"

text \<open>
  \<open>ArrayBase::operator[](size_t i)\<close>. The flag \<open>range_check\<close> is the preprocessor
  condition \<open>!defined(NDEBUG) && !defined(ENOKI_DISABLE_RANGE_CHECK)\<close>. The operator
  returns a reference to the lane: \<open>index_op\<close> is a read through that reference and
  \<open>index_assign\<close> a write through it.
\<close>

definition index_op :: "bool \<Rightarrow> 'a list \<Rightarrow> nat \<Rightarrow> error + 'a" where
  "index_op range_check v i =
     (if range_check \<and> i \<ge> size_impl v
      then Inl (Out_of_range (out_of_range_message i (size_impl v)))
      else coeff v i)"

definition index_assign :: "bool \<Rightarrow> 'a list \<Rightarrow> nat \<Rightarrow> 'a \<Rightarrow> error + 'a list" where
  "index_assign range_check v i x =
     (if range_check \<and> i \<ge> size_impl v
      then Inl (Out_of_range (out_of_range_message i (size_impl v)))
      else set_coeff v i x)"

section \<open>Resizing a static array\<close>

text \<open>
  \<open>void resize_(size_t size)\<close>: throws \<open>std::length_error\<close> unless the requested size is
  \<open>Derived::Size\<close>. The function returns the outcome together with the array, which
  no statement of the body touches.
\<close>

definition resize_impl :: "'a list \<Rightarrow> nat \<Rightarrow> (error + unit) \<times> 'a list" where
  "resize_impl v sz =
     (if sz \<noteq> length v
      then (Inl (Length_error ''Incompatible size for static array''), v)
      else (Inr (), v))"

section \<open>Primitive operators and masks\<close>

text \<open>
  The operators \<open>+ - * / & | ^\<close> of a concrete array type are not defined in
  \<open>array_base.h\<close>: the fallbacks only call them. They are taken as parameters, one lane
  operation each, and the array operators apply them lane by lane.
\<close>

record 'a prim =
  op_add :: "'a \<Rightarrow> 'a \<Rightarrow> 'a"
  op_sub :: "'a \<Rightarrow> 'a \<Rightarrow> 'a"
  op_mul :: "'a \<Rightarrow> 'a \<Rightarrow> 'a"
  op_div :: "'a \<Rightarrow> 'a \<Rightarrow> 'a"
  op_and :: "'a \<Rightarrow> 'a \<Rightarrow> 'a"
  op_or :: "'a \<Rightarrow> 'a \<Rightarrow> 'a"
  op_xor :: "'a \<Rightarrow> 'a \<Rightarrow> 'a"

text \<open>
  One concrete type, for evaluating the fallbacks on examples: unsigned 8-bit lanes with
  the operators of C++ on \<open>uint8_t\<close> lanes (wrap-around arithmetic).
\<close>

definition word_prim :: "8 word prim" where
  "word_prim = \<lparr>op_add = (+), op_sub = (-), op_mul = (*), op_div = (div),
                 op_and = (AND), op_or = (OR), op_xor = (XOR)\<rparr>"

definition lanewise :: "('a \<Rightarrow> 'a \<Rightarrow> 'a) \<Rightarrow> 'a list \<Rightarrow> 'a list \<Rightarrow> 'a list" where
  "lanewise f a b = map (\<lambda>(x, y). f x y) (zip a b)"


section \<open>Masked operations\<close>















section \<open>Rotation\<close>

text \<open>
  Modelled from the spec: the shifts of an unsigned integer array by a \<open>size_t\<close> count
  are primitives of the concrete type. A lane of \<open>w\<close> bits is a \<open>w word\<close>; the left
  shift drops the bits that leave the lane, the right shift is logical.
\<close>

definition sl :: "'a::len word \<Rightarrow> 64 word \<Rightarrow> 'a word" where
  "sl x s = push_bit (unat s) x"

definition sr :: "'a::len word \<Rightarrow> 64 word \<Rightarrow> 'a word" where
  "sr x s = drop_bit (unat s) x"

text \<open>
  \<open>rol_(size_t k)\<close>, the branch for an unsigned \<open>Scalar\<close>:
  \<open>mask = 8 * sizeof(Scalar) - 1u\<close> and
  \<open>(derived() << (k & mask)) | (derived() >> ((~k + 1u) & mask))\<close>, computed in
  \<open>size_t\<close> (64 bits). \<open>sizeof(Scalar)\<close> is an eighth of the lane width. The branch for
  a signed \<open>Scalar\<close> converts to the unsigned array of equal width, rotates it and
  converts back, which leaves every bit pattern as the unsigned branch computes it.
\<close>

definition sizeof_Scalar :: "'a::len word \<Rightarrow> nat" where
  "sizeof_Scalar x = LENGTH('a) div 8"

definition rol_unsigned :: "'a::len word list \<Rightarrow> 64 word \<Rightarrow> 'a word list" where
  "rol_unsigned v k =
     map (\<lambda>x. let mask = (of_nat (8 * sizeof_Scalar x - 1) :: 64 word)
              in sl x (k AND mask) OR sr x ((NOT k + 1) AND mask)) v"

definition rol_impl :: "bool \<Rightarrow> 'a::len word list \<Rightarrow> 64 word \<Rightarrow> 'a word list" where
  "rol_impl is_signed v k = (if \<not> is_signed then rol_unsigned v k else rol_unsigned v k)"

section \<open>Fused multiply-add and multiply-subtract\<close>

text \<open>
  Modelled from the spec: the scalar \<open>fmadd(a, b, c)\<close> and \<open>fmsub(a, b, c)\<close> that the
  loops of \<open>fmaddsub_\<close> and \<open>fmsubadd_\<close> call belong to the array router. They compute
  \<open>a * b + c\<close> and \<open>a * b - c\<close>, as the fallbacks \<open>fmadd_\<close> and \<open>fmsub_\<close> of
  \<open>array_base.h\<close> do for arrays.
\<close>

definition fmadd :: "'a prim \<Rightarrow> 'a \<Rightarrow> 'a \<Rightarrow> 'a \<Rightarrow> 'a" where
  "fmadd P a b c = op_add P (op_mul P a b) c"

definition fmsub :: "'a prim \<Rightarrow> 'a \<Rightarrow> 'a \<Rightarrow> 'a \<Rightarrow> 'a" where
  "fmsub P a b c = op_sub P (op_mul P a b) c"

definition fmadd_impl :: "'a prim \<Rightarrow> 'a list \<Rightarrow> 'a list \<Rightarrow> 'a list \<Rightarrow> 'a list" where
  "fmadd_impl P a b c = lanewise (op_add P) (lanewise (op_mul P) a b) c"

definition fmsub_impl :: "'a prim \<Rightarrow> 'a list \<Rightarrow> 'a list \<Rightarrow> 'a list \<Rightarrow> 'a list" where
  "fmsub_impl P a b c = lanewise (op_sub P) (lanewise (op_mul P) a b) c"

text \<open>
  \<open>fmaddsub_\<close> and \<open>fmsubadd_\<close>: a loop over \<open>i = 0, ..., Derived::Size - 1\<close> that
  writes lane \<open>i\<close> of the result, with \<open>fmsub\<close> or \<open>fmadd\<close> chosen by \<open>i % 2 == 0\<close>.
  The three arrays are of the same type; a lane that an operand does not have is a read
  out of range.
\<close>

definition fmaddsub_impl :: "'a prim \<Rightarrow> 'a list \<Rightarrow> 'a list \<Rightarrow> 'a list \<Rightarrow> error + 'a list" where
  "fmaddsub_impl P a b c =
     (if length b < length a \<or> length c < length a then Inl Undefined_behaviour
      else Inr (map (\<lambda>i. if i mod 2 = 0 then fmsub P (a ! i) (b ! i) (c ! i)
                                      else fmadd P (a ! i) (b ! i) (c ! i)) [0..<length a]))"

definition fmsubadd_impl :: "'a prim \<Rightarrow> 'a list \<Rightarrow> 'a list \<Rightarrow> 'a list \<Rightarrow> error + 'a list" where
  "fmsubadd_impl P a b c =
     (if length b < length a \<or> length c < length a then Inl Undefined_behaviour
      else Inr (map (\<lambda>i. if i mod 2 = 0 then fmadd P (a ! i) (b ! i) (c ! i)
                                      else fmsub P (a ! i) (b ! i) (c ! i)) [0..<length a]))"

section \<open>Single-precision lanes\<close>

text \<open>
  The approximate paths exist for \<open>Scalar = float\<close> only (the \<open>static_assert\<close> of
  \<open>StaticArrayBase\<close>). A lane is the bit pattern of an IEEE 754 binary32 value, a
  32-bit word, so that \<open>reinterpret_array\<close> and \<open>memcpy_cast\<close> are the identity and the
  bitwise operators \<open>& | ^\<close> between floating-point arrays and masks are the operators
  on words. A lane of an integer array (\<open>int_array_t\<close>) is a 32-bit word as well.
\<close>

type_synonym f32 = "32 word"

text \<open>
  Modelled from the spec: the comparison operators of the concrete array type are not
  defined in \<open>array_base.h\<close>. For single-precision lanes they are the comparisons of
  IEEE 754: a NaN (exponent bits all set, fraction not zero) compares false with
  everything under \<open>< > >= ==\<close> and true under \<open>!=\<close>, the two zeros are equal, and
  the other values are ordered by sign and magnitude. \<open>f32_key\<close> places a value that is
  not a NaN on that order. The result of a comparison is a mask lane, a boolean.
\<close>

definition f32_isnan :: "f32 \<Rightarrow> bool" where
  "f32_isnan x = (0x7F800000 < (x AND 0x7FFFFFFF))"

definition f32_key :: "f32 \<Rightarrow> int" where
  "f32_key x = (if x < 0x80000000 then uint x else - uint (x AND 0x7FFFFFFF))"

definition f32_lt :: "f32 \<Rightarrow> f32 \<Rightarrow> bool" where
  "f32_lt x y = (\<not> f32_isnan x \<and> \<not> f32_isnan y \<and> f32_key x < f32_key y)"

definition f32_gt :: "f32 \<Rightarrow> f32 \<Rightarrow> bool" where
  "f32_gt x y = (\<not> f32_isnan x \<and> \<not> f32_isnan y \<and> f32_key y < f32_key x)"

definition f32_ge :: "f32 \<Rightarrow> f32 \<Rightarrow> bool" where
  "f32_ge x y = (\<not> f32_isnan x \<and> \<not> f32_isnan y \<and> f32_key y \<le> f32_key x)"

definition f32_eq :: "f32 \<Rightarrow> f32 \<Rightarrow> bool" where
  "f32_eq x y = (\<not> f32_isnan x \<and> \<not> f32_isnan y \<and> f32_key x = f32_key y)"

definition f32_neq :: "f32 \<Rightarrow> f32 \<Rightarrow> bool" where
  "f32_neq x y = (\<not> f32_eq x y)"

text \<open>
  A mask lane used as an operand of \<open>& | ^\<close> with a floating-point array: the
  reinterpreting constructor of \<open>ENOKI_NATIVE_ARRAY\<close> turns \<open>true\<close> into
  \<open>memcpy_cast<Value>(Int(-1))\<close> (all bits set) and \<open>false\<close> into
  \<open>memcpy_cast<Value>(Int(0))\<close>.
\<close>

definition mask_bits :: "bool \<Rightarrow> f32" where
  "mask_bits b = (if b then - 1 else 0)"

text \<open>
  Modelled from the spec: \<open>abs\<close> of a floating-point array (a primitive of the concrete
  type) clears the sign bit, and \<open>detail::sign_mask\<close> (declared outside
  \<open>array_base.h\<close>) keeps only the sign bit.
\<close>

definition f32_abs :: "f32 \<Rightarrow> f32" where
  "f32_abs x = x AND 0x7FFFFFFF"


text \<open>
  The rounding arithmetic of the concrete type (\<open>+ - * /\<close>, \<open>sqrt\<close>, \<open>fmadd\<close>,
  \<open>floor\<close>, \<open>min\<close>, \<open>max\<close>, and the conversions between a floating-point array and
  the integer array of the same shape) is a parameter: the record \<open>arith\<close> holds one
  lane operation for each. What is proved below holds for every such arithmetic.
\<close>

record arith =
  f_add :: "f32 \<Rightarrow> f32 \<Rightarrow> f32"
  f_sub :: "f32 \<Rightarrow> f32 \<Rightarrow> f32"
  f_mul :: "f32 \<Rightarrow> f32 \<Rightarrow> f32"
  f_div :: "f32 \<Rightarrow> f32 \<Rightarrow> f32"
  f_sqrt :: "f32 \<Rightarrow> f32"
  f_fmadd :: "f32 \<Rightarrow> f32 \<Rightarrow> f32 \<Rightarrow> f32"
  f_floor :: "f32 \<Rightarrow> f32"
  f_min :: "f32 \<Rightarrow> f32 \<Rightarrow> f32"
  f_max :: "f32 \<Rightarrow> f32 \<Rightarrow> f32"
  f_to_int :: "f32 \<Rightarrow> 32 word"
  f_of_int :: "32 word \<Rightarrow> f32"

text \<open>
  The scalar functions that the loops of the non-approximate paths call on each lane
  (\<open>r.coeff(i) = sin(derived().coeff(i))\<close>) are a parameter too: the record \<open>libm\<close>
  holds the scalar implementation of each function. \<open>s_erfi\<close> stands for a scalar
  \<open>erfi\<close>.
\<close>

record libm =
  s_sin :: "f32 \<Rightarrow> f32"
  s_cos :: "f32 \<Rightarrow> f32"
  s_tan :: "f32 \<Rightarrow> f32"
  s_asin :: "f32 \<Rightarrow> f32"
  s_acos :: "f32 \<Rightarrow> f32"
  s_atan :: "f32 \<Rightarrow> f32"
  s_atan2 :: "f32 \<Rightarrow> f32 \<Rightarrow> f32"
  s_exp :: "f32 \<Rightarrow> f32"
  s_log :: "f32 \<Rightarrow> f32"
  s_ldexp :: "f32 \<Rightarrow> f32 \<Rightarrow> f32"
  s_frexp :: "f32 \<Rightarrow> f32 \<times> f32"
  s_pow :: "f32 \<Rightarrow> f32 \<Rightarrow> f32"
  s_sinh :: "f32 \<Rightarrow> f32"
  s_cosh :: "f32 \<Rightarrow> f32"
  s_tanh :: "f32 \<Rightarrow> f32"
  s_csch :: "f32 \<Rightarrow> f32"
  s_sech :: "f32 \<Rightarrow> f32"
  s_coth :: "f32 \<Rightarrow> f32"
  s_asinh :: "f32 \<Rightarrow> f32"
  s_acosh :: "f32 \<Rightarrow> f32"
  s_atanh :: "f32 \<Rightarrow> f32"
  s_erf :: "f32 \<Rightarrow> f32"
  s_erfi :: "f32 \<Rightarrow> f32"



text \<open>
  A run of statements \<open>t = fmadd(t, x, Expr(Float(c)))\<close>, one for each coefficient of the
  list, in order.
\<close>

definition fmadd_chain :: "arith \<Rightarrow> f32 \<Rightarrow> f32 \<Rightarrow> f32 list \<Rightarrow> f32" where
  "fmadd_chain ar t x cs = foldl (\<lambda>t c. f_fmadd ar t x c) t cs"

section \<open>Trigonometric functions\<close>















section \<open>Inverse trigonometric functions\<close>

text \<open>
  The seven statements that evaluate the minimax polynomial of \<open>acos(x)/sqrt(1-x)\<close>
  and the multiplication by \<open>sqrt(Float(1) - x)\<close> after them are the same in \<open>asin_\<close>
  and in \<open>acos_\<close>. The local variable \<open>x_\<close> of the source is \<open>x_in\<close> here, and
  \<open>inf\<close> is \<open>infinity\<close>.
\<close>

definition acos_poly :: "arith \<Rightarrow> f32 \<Rightarrow> f32" where
  "acos_poly ar x =
     (let t = (0x3B1562D3 \<comment> \<open>+0.00227944990024845419940890\<close>);
          t = fmadd_chain ar t x
                [(0xBC35CFBB \<comment> \<open>-0.01109688980710918972127294\<close>), (0x3CDBE98A \<comment> \<open>+0.02684475831352801832421248\<close>),
                 (0xBD47C75F \<comment> \<open>-0.04877412052802108370460564\<close>), (0x3DB5C210 \<comment> \<open>+0.08874905480758988950198278\<close>),
                 (0xBE5BBC18 \<comment> \<open>-0.21458470981542561024897117\<close>), (0x3FC90FD9 \<comment> \<open>1.57079616508886408344826942\<close>)]
      in f_mul ar t (f_sqrt ar (f_sub ar (0x3F800000 \<comment> \<open>1\<close>) x)))"

definition asin_lane :: "bool \<Rightarrow> libm \<Rightarrow> arith \<Rightarrow> f32 \<Rightarrow> f32" where
  "asin_lane Approx L ar d =
     (if Approx then
        (let x_in = d;
             x = f32_abs x_in;
             invalidMask = f32_gt x (0x3F800000 \<comment> \<open>1\<close>);
             negate = f32_lt x_in 0;
             t = acos_poly ar x;
             t = f_sub ar (0x3FC90FDB \<comment> \<open>M_PI_2\<close>) t
         in (if f32_gt x (0x3D4CCCCD \<comment> \<open>.5e-1\<close>)
             then f_sub ar t (f_mul ar ((0x40000000 \<comment> \<open>2\<close>) AND mask_bits negate) t)
             else f_add ar x_in (f_mul ar (f_mul ar (f_mul ar x_in x_in) x_in) (0x3E2AAAAB \<comment> \<open>1.0/6.0\<close>)))
            OR mask_bits invalidMask)
      else s_asin L d)"

definition acos_lane :: "bool \<Rightarrow> libm \<Rightarrow> arith \<Rightarrow> f32 \<Rightarrow> f32" where
  "acos_lane Approx L ar d =
     (if Approx then
        (let x = f32_abs d;
             invalidMask = f32_gt x (0x3F800000 \<comment> \<open>1\<close>);
             negate = f32_lt d 0;
             t = acos_poly ar x;
             t = f_sub ar t (f_mul ar ((0x40000000 \<comment> \<open>2\<close>) AND mask_bits negate) t)
         in f_add ar t ((0x40490FDB \<comment> \<open>M_PI\<close>) AND mask_bits negate) OR mask_bits invalidMask)
      else s_acos L d)"



definition asin_impl :: "bool \<Rightarrow> libm \<Rightarrow> arith \<Rightarrow> f32 list \<Rightarrow> f32 list" where
  "asin_impl Approx L ar v = map (asin_lane Approx L ar) v"

definition acos_impl :: "bool \<Rightarrow> libm \<Rightarrow> arith \<Rightarrow> f32 list \<Rightarrow> f32 list" where
  "acos_impl Approx L ar v = map (acos_lane Approx L ar) v"



section \<open>Exponential function, logarithm, power\<close>


text \<open>
  \<open>frexp_\<close>. \<open>sri<23>\<close> on the integer array is the arithmetic right shift of a signed
  lane; \<open>exponent_i & is_normal\<close> is the bitwise AND with the mask lane.
\<close>

definition frexp_lane :: "bool \<Rightarrow> libm \<Rightarrow> arith \<Rightarrow> f32 \<Rightarrow> f32 \<times> f32" where
  "frexp_lane Approx L ar d =
     (if Approx then
        (let exponentMask = (0x7f800000 :: 32 word);
             mantissaSignMask = (0x807fffff :: 32 word) \<comment> \<open>Int(~0x7f800000u)\<close>;
             biasMinus1 = (0x7e :: 32 word);
             x = d;
             exponent_bits = x AND exponentMask;
             is_normal = (f32_neq d 0 \<and> exponent_bits \<noteq> exponentMask);
             exponent_i = signed_drop_bit 23 exponent_bits - biasMinus1;
             mantissa = (x AND mantissaSignMask) OR (0x3F000000 \<comment> \<open>.5f\<close>);
             result_e = f_of_int ar (exponent_i AND mask_bits is_normal);
             result_m = (if is_normal then mantissa else x)
         in (result_m, result_e))
      else s_frexp L d)"



text \<open>
  \<open>log_\<close>. The statements between the call of \<open>frexp\<close> and the final \<open>select\<close> (the
  polynomial in the re-centred mantissa and the recombination with the exponent) make
  \<open>log_poly\<close>.
\<close>

definition log_poly :: "arith \<Rightarrow> f32 \<Rightarrow> f32 \<Rightarrow> f32" where
  "log_poly ar x0 e0 =
     (let x = x0;
          e = e0;
          ltInvSqrt2 = f32_lt x (0x3F3504F3 \<comment> \<open>0.707106781186547524\<close>);
          e = f_sub ar e ((0x3F800000 \<comment> \<open>1.f\<close>) AND mask_bits ltInvSqrt2);
          x = f_add ar x (f_sub ar (x AND mask_bits ltInvSqrt2) (0x3F800000 \<comment> \<open>1\<close>));
          z = f_mul ar x x;
          y = (0x3D9021BB \<comment> \<open>7.0376836292e-2\<close>);
          y = fmadd_chain ar y x
                [(0xBDEBD1B8 \<comment> \<open>-1.1514610310e-1\<close>), (0x3DEF251A \<comment> \<open>+1.1676998740e-1\<close>), (0xBDFE5D4F \<comment> \<open>-1.2420140846e-1\<close>),
                 (0x3E11E9BF \<comment> \<open>+1.4249322787e-1\<close>), (0xBE2AAE50 \<comment> \<open>-1.6668057665e-1\<close>), (0x3E4CCEAC \<comment> \<open>+2.0000714765e-1\<close>),
                 (0xBE7FFFFC \<comment> \<open>-2.4999993993e-1\<close>), (0x3EAAAAAA \<comment> \<open>+3.3333331174e-1\<close>)];
          y = f_mul ar y (f_mul ar x z);
          y = f_add ar y (f_mul ar (0xB95E8083 \<comment> \<open>-2.12194440e-4\<close>) e);
          y = f_add ar y (f_mul ar (0xBF000000 \<comment> \<open>-0.5\<close>) z);
          z = f_add ar x y;
          z = f_add ar z (f_mul ar (0x3F318000 \<comment> \<open>0.693359375\<close>) e)
      in z)"

definition log_lane :: "bool \<Rightarrow> libm \<Rightarrow> arith \<Rightarrow> f32 \<Rightarrow> f32" where
  "log_lane Approx L ar d =
     (if Approx then
        (let infinity = (0x7F800000 \<comment> \<open>infinity\<close>);
             x = d;
             validMask = f32_ge x 0;
             x = f_max ar x (0x00800000 \<comment> \<open>memcpy_cast<Float>(UInt(0x00800000u))\<close>);
             xe = frexp_lane Approx L ar x;
             z = log_poly ar (fst xe) (snd xe)
         in (if f32_eq d infinity then infinity else z OR mask_bits (\<not> validMask)))
      else s_log L d)"



definition log_impl :: "bool \<Rightarrow> libm \<Rightarrow> arith \<Rightarrow> f32 list \<Rightarrow> f32 list" where
  "log_impl Approx L ar v = map (log_lane Approx L ar) v"




section \<open>Hyperbolic and inverse hyperbolic functions\<close>





















section \<open>Error function and its inverse\<close>





section \<open>Properties of the size decomposition\<close>

lemma lpow2_pos: "0 < n \<Longrightarrow> 0 < lpow2 n"
  by (induction n rule: lpow2.induct) (subst lpow2.simps, auto)

lemma lpow2_le: "lpow2 n \<le> n"
proof (induction n rule: lpow2.induct)
  case (1 n)
  show ?case
  proof (cases "n < 2")
    case True
    then show ?thesis by (subst lpow2.simps) simp
  next
    case False
    with 1 have "lpow2 (n div 2) \<le> n div 2" by simp
    then have "2 * lpow2 (n div 2) \<le> n" by linarith
    with False show ?thesis by (subst lpow2.simps) simp
  qed
qed

lemma lpow2_power: "0 < n \<Longrightarrow> \<exists>k. lpow2 n = 2 ^ k"
proof (induction n rule: lpow2.induct)
  case (1 n)
  show ?case
  proof (cases "n < 2")
    case True
    with 1(2) have "n = 1" by simp
    then have "lpow2 n = 2 ^ 0" by (subst lpow2.simps) simp
    then show ?thesis by blast
  next
    case False
    then have "0 < n div 2" by simp
    with 1(1) False obtain k where "lpow2 (n div 2) = 2 ^ k" by auto
    with False have "lpow2 n = 2 ^ Suc k" by (subst lpow2.simps) simp
    then show ?thesis by blast
  qed
qed

lemma lpow2_greatest: "2 ^ j \<le> n \<Longrightarrow> 2 ^ j \<le> lpow2 n"
proof (induction n arbitrary: j rule: lpow2.induct)
  case (1 n)
  show ?case
  proof (cases "n < 2")
    case True
    have "0 < (2::nat) ^ j" by simp
    with 1(2) True have "n = 1" by linarith
    then have "lpow2 n = n" by (subst lpow2.simps) simp
    with 1(2) show ?thesis by simp
  next
    case False
    show ?thesis
    proof (cases j)
      case 0
      from False have "0 < n" by simp
      then have "0 < lpow2 n" by (rule lpow2_pos)
      with 0 show ?thesis by simp
    next
      case (Suc i)
      with 1(2) have "2 ^ i \<le> n div 2" by simp
      with 1(1) False have "2 ^ i \<le> lpow2 (n div 2)" by simp
      with False Suc show ?thesis by (subst lpow2.simps) simp
    qed
  qed
qed

text \<open>
  Claim C7. For every lane count \<open>N > 0\<close>: \<open>Size1 N\<close> is a power of two, it does not
  exceed \<open>N\<close>, no power of two that fits in \<open>N\<close> is larger (it is the largest power of
  two not exceeding \<open>N\<close>), and \<open>Size1 N + Size2 N = N\<close>.
\<close>

theorem size_decomposition:
  assumes "0 < N"
  shows "(\<exists>k. Size1 N = 2 ^ k) \<and> Size1 N \<le> N \<and> (\<forall>j. 2 ^ j \<le> N \<longrightarrow> 2 ^ j \<le> Size1 N)
          \<and> Size1 N + Size2 N = N"
  using assms lpow2_power [of N] lpow2_le [of N] lpow2_greatest [of _ N]
  by (simp add: Size1_def Size2_def)

theorem size_decomposition_witness:
  "(0::nat) < 11 \<and> Size1 11 = 8 \<and> Size2 11 = 3 \<and> Size1 11 = 2 ^ 3 \<and> Size1 11 \<le> 11
    \<and> (2::nat) ^ 3 \<le> 11 \<and> (2::nat) ^ 3 \<le> Size1 11 \<and> Size1 11 + Size2 11 = 11"
proof -
  have "lpow2 11 = 8" by code_simp
  then have v: "Size1 11 = 8" "Size2 11 = 3"
    by (simp_all add: Size1_def Size2_def)
  have "(0::nat) < 11" by simp
  from size_decomposition [OF this] v show ?thesis by simp
qed

section \<open>Properties of resizing\<close>

text \<open>
  Claim C9. For a fixed-size vector \<open>v\<close> and a requested size \<open>s\<close>: \<open>resize_impl\<close> fails
  with the length error exactly when \<open>s\<close> differs from the vector's size, returns normally
  exactly when it equals it, and in both cases the lanes of \<open>v\<close> are what they were.
\<close>

theorem resize_length_error_iff:
  "(fst (resize_impl v s) = Inl (Length_error ''Incompatible size for static array''))
     = (s \<noteq> size_impl v)
   \<and> (fst (resize_impl v s) = Inr ()) = (s = size_impl v)
   \<and> snd (resize_impl v s) = v"
  by (simp add: resize_impl_def size_impl_def)

section \<open>Properties of element access\<close>

text \<open>
  Claim C3. With the debug range check enabled, \<open>operator[](i)\<close> on a vector of size
  \<open>N\<close> fails for every \<open>i \<ge> N\<close> with the out-of-range error whose message holds the
  decimal digits of \<open>i\<close> and of \<open>N\<close>, and for every \<open>i < N\<close> it gives lane \<open>i\<close>
  without error, for reading and for writing through the reference.
\<close>

theorem index_op_range_checked:
  "(size_impl v \<le> i \<longrightarrow>
      index_op True v i = Inl (Out_of_range
        (''ArrayBase: out of range access (tried to access index '' @ to_string i @
         '' in an array of size '' @ to_string (size_impl v) @ '')''))
      \<and> index_assign True v i x = Inl (Out_of_range (out_of_range_message i (size_impl v))))
   \<and> (i < size_impl v \<longrightarrow>
      index_op True v i = Inr (v ! i) \<and> index_assign True v i x = Inr (v[i := x]))"
  by (simp add: index_op_def index_assign_def out_of_range_message_def coeff_def
      set_coeff_def size_impl_def)

theorem index_op_range_checked_witness:
  "index_op True [10, 20, 30 :: int] 5 = Inl (Out_of_range
      ''ArrayBase: out of range access (tried to access index 5 in an array of size 3)'')
   \<and> index_op True [10, 20, 30 :: int] 12 = Inl (Out_of_range
      ''ArrayBase: out of range access (tried to access index 12 in an array of size 3)'')
   \<and> index_op True [10, 20, 30 :: int] 1 = Inr 20
   \<and> index_assign True [10, 20, 30 :: int] 1 7 = Inr [10, 7, 30]"
proof -
  have s: "to_string 5 = ''5''" "to_string 3 = ''3''" "to_string 12 = ''12''"
    by (simp_all add: to_string.simps digit_char_def)
  have n: "size_impl [10, 20, 30 :: int] = 3"
    by (simp add: size_impl_def)
  from index_op_range_checked [of "[10, 20, 30 :: int]" 5 7]
    index_op_range_checked [of "[10, 20, 30 :: int]" 12 7]
    index_op_range_checked [of "[10, 20, 30 :: int]" 1 7]
  show ?thesis by (simp add: s n)
qed

section \<open>Properties of the masked operations\<close>








section \<open>Properties of the rotation\<close>

lemma unat_and_mask: "unat ((c :: 64 word) AND mask j) = unat c mod 2 ^ j"
proof -
  have "unat (c AND mask j) = unat (take_bit j c)" by (simp only: take_bit_eq_mask)
  also have "\<dots> = take_bit j (unat c)" by (rule unsigned_take_bit_eq)
  also have "\<dots> = unat c mod 2 ^ j" by (rule take_bit_eq_mod)
  finally show ?thesis .
qed

lemma not_plus_one: "NOT (c :: 64 word) + 1 = - c"
  by (simp add: minus_eq_not_plus_1)

lemma uint_take_bit_neg:
  assumes "j \<le> 64"
  shows "uint (take_bit j (- c :: 64 word)) = (- uint c) mod 2 ^ j"
proof -
  have "uint (take_bit j (- c)) = take_bit j (uint (- c))" by (rule unsigned_take_bit_eq)
  also have "\<dots> = take_bit j (take_bit 64 (- uint c))"
    by (simp add: uint_word_ariths take_bit_eq_mod)
  also have "\<dots> = take_bit j (- uint c)" using assms by (simp add: min_def)
  also have "\<dots> = (- uint c) mod 2 ^ j" by (rule take_bit_eq_mod)
  finally show ?thesis .
qed

lemma unat_neg_and_mask:
  assumes "j \<le> 6"
  shows "unat ((NOT (c :: 64 word) + 1) AND mask j) = (2 ^ j - unat c mod 2 ^ j) mod 2 ^ j"
proof -
  have "int (unat ((- c) AND mask j)) = uint (take_bit j (- c))"
    by (simp only: take_bit_eq_mask) simp
  also have "\<dots> = (- uint c) mod 2 ^ j" using assms by (intro uint_take_bit_neg) simp
  also have "\<dots> = (2 ^ j - (uint c mod 2 ^ j)) mod 2 ^ j"
    by (metis minus_mod_self1 mod_diff_right_eq)
  also have "\<dots> = int ((2 ^ j - unat c mod 2 ^ j) mod 2 ^ j)"
    by (simp add: zmod_int of_nat_diff)
  finally show ?thesis by (simp only: not_plus_one of_nat_eq_iff)
qed

lemma rotl_0: "word_rotl 0 (x :: 'a::len word) = x"
  by (rule bit_word_eqI) (simp add: bit_word_rotl_iff)

lemma rotl_two_shifts:
  assumes "0 < r" "r < LENGTH('a)"
  shows "push_bit r (x :: 'a::len word) OR drop_bit (LENGTH('a) - r) x = word_rotl r x"
proof (rule bit_word_eqI)
  fix n assume n: "n < LENGTH('a)"
  show "bit (push_bit r x OR drop_bit (LENGTH('a) - r) x) n = bit (word_rotl r x) n"
  proof (cases "r \<le> n")
    case True
    with assms n have "(n + (LENGTH('a) - r)) mod LENGTH('a) = n - r"
      by (metis Nat.add_diff_assoc2 add.commute le_add_diff_inverse2 less_imp_diff_less
          less_or_eq_imp_le mod_add_self2 mod_less)
    with True assms n show ?thesis
      by (auto simp add: bit_simps dest: bit_imp_le_length)
  next
    case False
    with assms n have "(n + (LENGTH('a) - r)) mod LENGTH('a) = n + (LENGTH('a) - r)"
      by simp
    with False assms n show ?thesis
      by (simp add: bit_simps add.commute)
  qed
qed

lemma size_mask:
  assumes "LENGTH('a::len) = 2 ^ j" "3 \<le> j" "j \<le> 6"
  shows "(of_nat (8 * sizeof_Scalar (x :: 'a word) - 1) :: 64 word) = mask j"
proof -
  from assms obtain i where j: "j = 3 + i" using le_Suc_ex by blast
  have "8 * (LENGTH('a) div 8) = LENGTH('a)"
    unfolding assms(1) j by (simp add: power_add)
  then show ?thesis
    unfolding sizeof_Scalar_def assms(1) by (simp add: mask_eq_exp_minus_1 of_nat_diff)
qed

lemma rol_unsigned_rotl:
  assumes "LENGTH('a::len) = 2 ^ j" "3 \<le> j" "j \<le> 6"
  shows "rol_unsigned (v :: 'a word list) c = map (word_rotl (unat c mod LENGTH('a))) v"
proof -
  let ?r = "unat c mod 2 ^ j"
  have a: "unat (c AND mask j) = ?r" by (rule unat_and_mask)
  have b: "unat ((NOT c + 1) AND mask j) = (2 ^ j - ?r) mod 2 ^ j"
    using assms(3) by (rule unat_neg_and_mask)
  have lane: "push_bit ?r x OR drop_bit ((2 ^ j - ?r) mod 2 ^ j) x = word_rotl ?r x"
    for x :: "'a word"
  proof (cases "?r = 0")
    case True
    then show ?thesis by (simp add: rotl_0)
  next
    case False
    then have "0 < ?r" "?r < LENGTH('a)" by (simp_all add: assms(1))
    then have "push_bit ?r x OR drop_bit (LENGTH('a) - ?r) x = word_rotl ?r x"
      by (rule rotl_two_shifts)
    moreover have "(2 ^ j - ?r) mod 2 ^ j = LENGTH('a) - ?r"
      using False by (simp add: assms(1))
    ultimately show ?thesis by simp
  qed
  show ?thesis
    unfolding rol_unsigned_def sl_def sr_def Let_def size_mask [OF assms] a b lane assms(1) ..
qed

lemma rotl_complement:
  assumes "0 < k" "k < LENGTH('a::len)"
  shows "word_rotl (LENGTH('a) - k) (word_rotl k (x :: 'a word)) = x"
proof -
  have "word_rotl (LENGTH('a) - k) = (word_rotr k :: 'a word \<Rightarrow> 'a word)"
    using assms by (simp add: word_rotl_eq_word_rotr)
  then show ?thesis by simp
qed

text \<open>
  Claim C6. For a vector \<open>v\<close> of unsigned integer lanes of bit width \<open>N\<close> (8, 16, 32
  or 64, the widths of the C++ unsigned integer types) and every rotation count \<open>k\<close> with
  \<open>0 \<le> k < N\<close>: rotating left by \<open>k\<close> and then by \<open>N - k\<close>, with the fallback made of
  two complementary shifts, gives \<open>v\<close> back.
\<close>

theorem rol_round_trip:
  assumes "LENGTH('a::len) \<in> {8, 16, 32, 64}" and "unat k < LENGTH('a)"
  shows "rol_impl False (rol_impl False (v :: 'a word list) k) (of_nat LENGTH('a) - k) = v"
proof -
  let ?N = "LENGTH('a)"
  from assms(1) have "?N = 2 ^ 3 \<or> ?N = 2 ^ 4 \<or> ?N = 2 ^ 5 \<or> ?N = 2 ^ 6" by auto
  then have "\<exists>j. ?N = 2 ^ j \<and> 3 \<le> j \<and> j \<le> 6"
    by (elim disjE)
      (rule exI [of _ 3], simp, rule exI [of _ 4], simp,
       rule exI [of _ 5], simp, rule exI [of _ 6], simp)
  then obtain j where j: "?N = 2 ^ j" "3 \<le> j" "j \<le> 6" by blast
  from assms(1) have N64: "?N \<le> 64" by auto
  have uN: "unat (of_nat ?N :: 64 word) = ?N" using N64 by (simp add: unat_of_nat)
  have "k \<le> (of_nat ?N :: 64 word)" using assms(2) uN by (simp add: word_le_nat_alt)
  then have u: "unat (of_nat ?N - k :: 64 word) = ?N - unat k"
    using uN by (simp add: unat_sub)
  have lane: "word_rotl ((?N - unat k) mod ?N) (word_rotl (unat k mod ?N) x) = x"
    for x :: "'a word"
  proof (cases "unat k = 0")
    case True
    then show ?thesis by (simp add: rotl_0)
  next
    case False
    with assms(2) show ?thesis by (simp add: rotl_complement)
  qed
  show ?thesis
    by (simp add: rol_impl_def rol_unsigned_rotl [OF j] u lane o_def)
qed

theorem rol_round_trip_witness:
  "rol_impl False [0x80000001, 5 :: 32 word] 3 = [0xC, 40]
   \<and> rol_impl False (rol_impl False [0x80000001, 5 :: 32 word] 3) (32 - 3) = [0x80000001, 5]
   \<and> rol_impl False (rol_impl False [0x81 :: 8 word] 0) (8 - 0) = [0x81]"
proof -
  have "rol_impl False [0x80000001, 5 :: 32 word] 3 = [0xC, 40]"
    by (simp add: rol_impl_def rol_unsigned_def sl_def sr_def sizeof_Scalar_def)
  with rol_round_trip [where 'a = 32, of 3 "[0x80000001, 5]"]
    rol_round_trip [where 'a = 8, of 0 "[0x81]"]
  show ?thesis by simp
qed

section \<open>Properties of the alternating fused operations\<close>

text \<open>
  Claim C8. For vectors \<open>a\<close>, \<open>b\<close>, \<open>c\<close> of one type and every lane \<open>i\<close>:
  \<open>fmaddsub_\<close> yields \<open>a[i] * b[i] - c[i]\<close> at even \<open>i\<close> and \<open>a[i] * b[i] + c[i]\<close> at
  odd \<open>i\<close>; \<open>fmsubadd_\<close> yields \<open>a[i] * b[i] + c[i]\<close> at even \<open>i\<close> and
  \<open>a[i] * b[i] - c[i]\<close> at odd \<open>i\<close>. Both results have the lane count of the operands.
\<close>

theorem fmaddsub_alternates:
  assumes "length b = length a" and "length c = length a"
  shows "\<exists>r s. fmaddsub_impl P a b c = Inr r \<and> fmsubadd_impl P a b c = Inr s
          \<and> length r = length a \<and> length s = length a
          \<and> (\<forall>i < length a.
                r ! i = (if even i then op_sub P (op_mul P (a ! i) (b ! i)) (c ! i)
                         else op_add P (op_mul P (a ! i) (b ! i)) (c ! i))
              \<and> s ! i = (if even i then op_add P (op_mul P (a ! i) (b ! i)) (c ! i)
                         else op_sub P (op_mul P (a ! i) (b ! i)) (c ! i)))"
  using assms
  by (simp add: fmaddsub_impl_def fmsubadd_impl_def fmadd_def fmsub_def even_iff_mod_2_eq_zero)

theorem fmaddsub_alternates_witness:
  "fmaddsub_impl word_prim [2, 3, 4, 5] [10, 10, 10, 10] [1, 1, 1, 1] = Inr [19, 31, 39, 51]
   \<and> fmsubadd_impl word_prim [2, 3, 4, 5] [10, 10, 10, 10] [1, 1, 1, 1] = Inr [21, 29, 41, 49]"
proof -
  have e: "[0..<4] = [0, 1, 2, 3]" by (simp add: upt_rec)
  from fmaddsub_alternates [of "[10, 10, 10, 10]" "[2, 3, 4, 5]" "[1, 1, 1, 1]" word_prim]
  show ?thesis
    by (simp add: fmaddsub_impl_def fmsubadd_impl_def fmadd_def fmsub_def word_prim_def e)
qed

section \<open>Properties of the approximate paths\<close>

lemma key_consts:
  "f32_key 0 = 0" "f32_key 0x3F800000 = 0x3F800000" "f32_key 0x7F800000 = 0x7F800000"
  "f32_key 0x42B0C0A5 = 0x42B0C0A5" "f32_key 0xC2B0C0A5 = - 0x42B0C0A5"
  "f32_key 0x42B0C28F = 0x42B0C28F" "f32_key 0xC2B0C28F = - 0x42B0C28F"
  by (simp_all add: f32_key_def)

lemma nan_consts:
  "\<not> f32_isnan 0" "\<not> f32_isnan 0x3F800000" "\<not> f32_isnan 0x7F800000"
  "\<not> f32_isnan 0x42B0C0A5" "\<not> f32_isnan 0xC2B0C0A5"
  "\<not> f32_isnan 0x42B0C28F" "\<not> f32_isnan 0xC2B0C28F" "f32_isnan (- 1)"
  by (simp_all add: f32_isnan_def)

lemma asin_invalid:
  "f32_gt (f32_abs x) 0x3F800000 \<Longrightarrow> asin_lane True L ar x = - 1"
  by (simp add: asin_lane_def Let_def mask_bits_def)

lemma acos_invalid:
  "f32_gt (f32_abs x) 0x3F800000 \<Longrightarrow> acos_lane True L ar x = - 1"
  by (simp add: acos_lane_def Let_def mask_bits_def)

lemma log_invalid:
  assumes "f32_lt x 0"
  shows "log_lane True L ar x = - 1"
proof -
  from assms have "\<not> f32_ge x 0" "\<not> f32_eq x 0x7F800000"
    by (simp_all add: f32_lt_def f32_ge_def f32_eq_def key_consts)
  then show ?thesis
    by (simp add: log_lane_def Let_def mask_bits_def)
qed

lemma log_inf: "log_lane True L ar 0x7F800000 = 0x7F800000"
  by (simp add: log_lane_def Let_def f32_eq_def nan_consts)






text \<open>
  Claim C1. In approximate mode no input makes \<open>asin\<close>, \<open>acos\<close> or \<open>log\<close> fail: each
  returns a vector of the operand's lane count, and a lane whose value is out of the
  domain (\<open>|x| > 1\<close> for \<open>asin\<close> and \<open>acos\<close>, \<open>x < 0\<close> for \<open>log\<close>) gets the
  all-bits-set mask OR-ed into its result, which leaves the all-bits-set pattern, a NaN.
\<close>

theorem domain_invalid_tagged:
  assumes "i < length v"
  shows "(f32_gt (f32_abs (v ! i)) 0x3F800000 \<longrightarrow>
            asin_impl True L ar v ! i = - 1 \<and> acos_impl True L ar v ! i = - 1)
       \<and> (f32_lt (v ! i) 0 \<longrightarrow> log_impl True L ar v ! i = - 1)
       \<and> f32_isnan (- 1)
       \<and> length (asin_impl True L ar v) = length v
       \<and> length (acos_impl True L ar v) = length v
       \<and> length (log_impl True L ar v) = length v"
  using assms
  by (simp add: asin_impl_def acos_impl_def log_impl_def asin_invalid acos_invalid
      log_invalid nan_consts)

theorem domain_invalid_tagged_witness:
  "\<forall>L ar. asin_impl True L ar [0x40000000] ! 0 = 0xFFFFFFFF
         \<and> acos_impl True L ar [0xC0000000] ! 0 = 0xFFFFFFFF
         \<and> log_impl True L ar [0xBF800000] ! 0 = 0xFFFFFFFF"
proof (intro allI)
  fix L ar
  have h: "f32_gt (f32_abs 0x40000000) 0x3F800000" "f32_gt (f32_abs 0xC0000000) 0x3F800000"
    "f32_lt 0xBF800000 0"
    by (simp_all add: f32_gt_def f32_lt_def f32_abs_def f32_isnan_def f32_key_def)
  from h domain_invalid_tagged [of 0 "[0x40000000]" L ar]
    domain_invalid_tagged [of 0 "[0xC0000000]" L ar]
    domain_invalid_tagged [of 0 "[0xBF800000]" L ar]
  show "asin_impl True L ar [0x40000000] ! 0 = 0xFFFFFFFF
         \<and> acos_impl True L ar [0xC0000000] ! 0 = 0xFFFFFFFF
         \<and> log_impl True L ar [0xBF800000] ! 0 = 0xFFFFFFFF"
    by simp
qed



text \<open>
  Claim C10. In approximate mode \<open>log\<close> maps a lane holding \<open>+infinity\<close> to exactly
  \<open>+infinity\<close>, which is neither the all-bits-set pattern nor any other NaN: the outer
  \<open>select\<close> on \<open>eq(derived(), inf)\<close> decides the lane, whatever the polynomial and the
  invalid mask of the other branch give.
\<close>

theorem log_infinity:
  assumes "i < length v" and "v ! i = 0x7F800000"
  shows "log_impl True L ar v ! i = 0x7F800000
       \<and> log_impl True L ar v ! i \<noteq> - 1
       \<and> \<not> f32_isnan (log_impl True L ar v ! i)
       \<and> log_lane True L ar d
           = (if f32_eq d 0x7F800000 then 0x7F800000
              else log_poly ar (fst (frexp_lane True L ar (f_max ar d 0x00800000)))
                     (snd (frexp_lane True L ar (f_max ar d 0x00800000)))
                   OR mask_bits (\<not> f32_ge d 0))"
  using assms
  by (simp add: log_impl_def log_inf nan_consts) (simp add: log_lane_def Let_def)

theorem log_infinity_witness:
  "\<forall>L ar. log_impl True L ar [0x3F800000, 0x7F800000] ! 1 = 0x7F800000
         \<and> \<not> f32_isnan (log_impl True L ar [0x3F800000, 0x7F800000] ! 1)"
proof (intro allI)
  fix L ar
  have h: "1 < length [0x3F800000, 0x7F800000 :: f32]"
    "[0x3F800000, 0x7F800000 :: f32] ! 1 = 0x7F800000"
    by simp_all
  from log_infinity [OF h, of L ar 0]
  show "log_impl True L ar [0x3F800000, 0x7F800000] ! 1 = 0x7F800000
         \<and> \<not> f32_isnan (log_impl True L ar [0x3F800000, 0x7F800000] ! 1)"
    by blast
qed

section \<open>Properties of the scalar fallback paths\<close>




end
